theory Spec2Isabelle
  imports Main "HOL-Library.AList" "HOL-Library.Multiset" "HOL-Library.Sublist"
begin

section \<open>JavaScript values\<close>

text \<open>
  The primitive values a cell of the parsed sheet can hold. Numbers are the safe integers
  (absolute value below \<open>2^53\<close>), which \<open>String\<close> prints digit by digit; larger integers,
  fractions, \<open>NaN\<close> and the infinities stand for no number here. Strings are sequences of
  code units below 256.
\<close>

datatype scalar = SUndefined | SNull | SBool bool | SNum int | SStr string

text \<open>
  The values a property lookup \<open>row[key]\<close> can return: the primitives, a built-in function
  that a row inherits from \<open>Object.prototype\<close> (named as \<open>String\<close> prints it), and the
  object \<open>Object.prototype\<close> itself, which the inherited getter \<open>__proto__\<close> returns.
\<close>

datatype jsval =
  JUndefined | JNull | JBool bool | JNum int | JStr string | JFunction string | JObjectPrototype

fun of_scalar :: "scalar \<Rightarrow> jsval" where
  "of_scalar SUndefined = JUndefined"
| "of_scalar SNull = JNull"
| "of_scalar (SBool b) = JBool b"
| "of_scalar (SNum n) = JNum n"
| "of_scalar (SStr s) = JStr s"

text \<open>
  A \<open>Date\<close> object, as the bundle of what the code observes of it: \<open>isNaN(date)\<close>,
  \<open>getFullYear()\<close>, \<open>getMonth()\<close> (0 to 11), \<open>getDate()\<close> and the text \<open>String(date)\<close>.
\<close>

record jsdate =
  isNaN_date :: bool
  getFullYear :: int
  getMonth :: nat
  getDate :: nat
  date_text :: string

text \<open>
  A cell of the grid that \<open>XLSX.utils.sheet_to_json(worksheet, {header: 1})\<close> returns:
  a hole of the sparse row array (a blank cell), a primitive, or a \<open>Date\<close>.
\<close>

datatype cell = Hole | Val scalar | DateObj jsdate

fun digits :: "nat \<Rightarrow> string" where
  "digits n =
     (if n < 10 then [''0123456789'' ! n]
      else digits (n div 10) @ [''0123456789'' ! (n mod 10)])"

declare digits.simps [simp del]

text \<open>
  \<open>String(value)\<close>. A built-in function prints as Node prints it, and \<open>Object.prototype\<close>
  through its own \<open>toString\<close>.
\<close>

fun js_String :: "jsval \<Rightarrow> string" where
  "js_String JUndefined = ''undefined''"
| "js_String JNull = ''null''"
| "js_String (JBool b) = (if b then ''true'' else ''false'')"
| "js_String (JNum n) = (if n < 0 then CHR ''-'' # digits (nat (- n)) else digits (nat n))"
| "js_String (JStr s) = s"
| "js_String (JFunction name) = ''function '' @ name @ ''() { [native code] }''"
| "js_String JObjectPrototype = ''[object Object]''"

text \<open>Truthiness, as \<open>h || ""\<close> tests it.\<close>

fun truthy :: "jsval \<Rightarrow> bool" where
  "truthy JUndefined = False"
| "truthy JNull = False"
| "truthy (JBool b) = b"
| "truthy (JNum n) = (n \<noteq> 0)"
| "truthy (JStr s) = (s \<noteq> [])"
| "truthy (JFunction name) = True"
| "truthy JObjectPrototype = True"

text \<open>
  The test \<open>value !== undefined && value !== null && value !== ""\<close> that guards both the
  lookup set and the partition loop.
\<close>

definition nonempty :: "jsval \<Rightarrow> bool" where
  "nonempty v = (v \<noteq> JUndefined \<and> v \<noteq> JNull \<and> v \<noteq> JStr [])"

text \<open>White space that \<open>String.prototype.trim\<close> strips, among the code units below 256.\<close>

definition is_ws :: "char \<Rightarrow> bool" where
  "is_ws c = (c \<in> set [CHR 0x09, CHR 0x0A, CHR 0x0B, CHR 0x0C, CHR 0x0D, CHR 0x20, CHR 0xA0])"

definition trim :: "string \<Rightarrow> string" where
  "trim s = rev (dropWhile is_ws (rev (dropWhile is_ws s)))"

text \<open>\<open>s.padStart(2, "0")\<close>.\<close>

definition padStart2 :: "string \<Rightarrow> string" where
  "padStart2 s = replicate (2 - length s) (CHR ''0'') @ s"

text \<open>\<open>formatDate\<close>, on the values \<open>readFileContent\<close> hands to it (\<open>Date\<close> objects).\<close>

definition formatDate :: "jsdate \<Rightarrow> string" where
  "formatDate date =
     (if isNaN_date date then ''''
      else
        let year = getFullYear date;
            month = padStart2 (js_String (JNum (int (getMonth date) + 1)));
            day = padStart2 (js_String (JNum (int (getDate date))))
        in js_String (JNum year) @ ''-'' @ month @ ''-'' @ day)"

section \<open>Ingested files\<close>

text \<open>
  A row object is created as \<open>{}\<close>: it has its own properties and a prototype, which is
  \<open>Object.prototype\<close> (\<open>Obj\<close>) until \<open>obj["__proto__"] = null\<close> removes it (\<open>NullProtoObj\<close>).
  The own properties are kept as an association list, in the order in which they were
  first assigned; the handler only looks properties up and never enumerates them, so the
  order stands for nothing.
\<close>

datatype row =
    Obj "(string \<times> jsval) list"
  | NullProtoObj "(string \<times> jsval) list"


text \<open>The names of the properties of \<open>Object.prototype\<close> (Node).\<close>

definition Object_prototype_names :: "string list" where
  "Object_prototype_names =
     [''constructor'', ''__defineGetter__'', ''__defineSetter__'', ''hasOwnProperty'',
      ''__lookupGetter__'', ''__lookupSetter__'', ''isPrototypeOf'', ''propertyIsEnumerable'',
      ''toString'', ''valueOf'', ''__proto__'', ''toLocaleString'']"

text \<open>
  What an object whose prototype is \<open>Object.prototype\<close> inherits under a key: the getter
  \<open>__proto__\<close> returns the prototype, \<open>constructor\<close> is the function \<open>Object\<close>, the other
  names are the built-in methods, and any other key is \<open>undefined\<close>.
\<close>

definition inherited :: "string \<Rightarrow> jsval" where
  "inherited k =
     (if k = ''__proto__'' then JObjectPrototype
      else if k = ''constructor'' then JFunction ''Object''
      else if k \<in> set Object_prototype_names then JFunction k
      else JUndefined)"

text \<open>\<open>row[key]\<close>: an own property first, then the prototype, if there is one.\<close>

fun get_prop :: "row \<Rightarrow> string \<Rightarrow> jsval" where
  "get_prop (Obj ps) k = (case map_of ps k of None \<Rightarrow> inherited k | Some v \<Rightarrow> v)"
| "get_prop (NullProtoObj ps) k = (case map_of ps k of None \<Rightarrow> JUndefined | Some v \<Rightarrow> v)"

text \<open>
  \<open>obj[key] = value\<close> with a primitive value. An own property is overwritten in place and a
  new one is added, except that on an object that inherits the setter \<open>__proto__\<close> and has
  no own property of that name the assignment runs the setter: \<open>null\<close> removes the
  prototype, any other primitive is ignored.
\<close>

fun set_prop :: "row \<Rightarrow> string \<Rightarrow> scalar \<Rightarrow> row" where
  "set_prop (Obj ps) k v =
     (if k = ''__proto__'' \<and> map_of ps k = None
      then (if v = SNull then NullProtoObj ps else Obj ps)
      else Obj (AList.update k (of_scalar v) ps))"
| "set_prop (NullProtoObj ps) k v = NullProtoObj (AList.update k (of_scalar v) ps)"

text \<open>An element of \<open>data\<close>: a row object of a structured file or a line of a text file.\<close>

datatype item = Row row | Line string

datatype file_type = structured | plain_text

text \<open>
  The object \<open>readFileContent\<close> returns. The \<open>type\<close> tag decides the shape of \<open>data\<close>, so the
  two shapes are the two constructors; \<open>data\<close>, \<open>ftype\<close>, \<open>headers\<close> and
  \<open>firstColumnHeader\<close> read the fields.
\<close>

datatype fileContent =
    Structured "string list" "row list" "string option"
  | PlainText "string list"

fun data :: "fileContent \<Rightarrow> item list" where
  "data (Structured hs rows fch) = map Row rows"
| "data (PlainText lines) = map Line lines"

fun ftype :: "fileContent \<Rightarrow> file_type" where
  "ftype (Structured hs rows fch) = structured"
| "ftype (PlainText lines) = plain_text"

fun headers :: "fileContent \<Rightarrow> string list" where
  "headers (Structured hs rows fch) = hs"
| "headers (PlainText lines) = []"

fun firstColumnHeader :: "fileContent \<Rightarrow> string option" where
  "firstColumnHeader (Structured hs rows fch) = fch"
| "firstColumnHeader (PlainText lines) = Some ''Line Content''"

text \<open>
  What \<open>readFileContent\<close> finds in the file: for a structured extension the grid that
  \<open>sheet_to_json\<close> produced, otherwise the text of the file.
\<close>

datatype upload = Sheet "cell list list" | Text string

text \<open>\<open>String(h || "").trim()\<close> on a header cell that is not a hole.\<close>

fun header_text :: "cell \<Rightarrow> string" where
  "header_text (Val v) = trim (js_String (if truthy (of_scalar v) then of_scalar v else JStr []))"
| "header_text (DateObj d) = trim (date_text d)"
| "header_text Hole = []"

text \<open>
  \<open>rawData[0].map(...).filter((h) => h !== "")\<close>: \<open>map\<close> leaves the holes of the sparse
  array in place and \<open>filter\<close> drops them.
\<close>

definition clean_headers :: "cell list \<Rightarrow> string list" where
  "clean_headers row0 =
     filter (\<lambda>h. h \<noteq> []) (map header_text (filter (\<lambda>c. c \<noteq> Hole) row0))"

text \<open>\<open>row[index]\<close>, followed by the \<open>instanceof Date\<close> conversion.\<close>

definition row_at :: "cell list \<Rightarrow> nat \<Rightarrow> cell" where
  "row_at r index = (if index < length r then r ! index else Hole)"

fun cell_value :: "cell \<Rightarrow> scalar" where
  "cell_value Hole = SUndefined"
| "cell_value (Val v) = v"
| "cell_value (DateObj d) = SStr (formatDate d)"

text \<open>The \<open>headers.forEach((header, index) => ...)\<close> loop that fills one row object.\<close>

definition build_row :: "string list \<Rightarrow> cell list \<Rightarrow> row" where
  "build_row hs r =
     fold (\<lambda>(header, index) obj. set_prop obj header (cell_value (row_at r index)))
       (zip hs [0 ..< length hs]) (Obj [])"

text \<open>\<open>content.split(/\r?\n/)\<close>, with the line read so far as accumulator.\<close>

fun split_lines :: "string \<Rightarrow> string \<Rightarrow> string list" where
  "split_lines cur [] = [cur]"
| "split_lines cur [c] = (if c = CHR 0x0A then [cur, []] else [cur @ [c]])"
| "split_lines cur (c # d # cs) =
     (if c = CHR 0x0D \<and> d = CHR 0x0A then cur # split_lines [] cs
      else if c = CHR 0x0A then cur # split_lines [] (d # cs)
      else split_lines (cur @ [c]) (d # cs))"

fun readFileContent :: "upload \<Rightarrow> fileContent" where
  "readFileContent (Sheet rawData) =
     (if rawData = [] then Structured [] [] None
      else
        let hs = clean_headers (hd rawData);
            rows = map (build_row hs) (tl rawData);
            firstColumnHeader = (if length hs > 0 then Some (hd hs) else None)
        in Structured hs rows firstColumnHeader)"
| "readFileContent (Text content) =
     PlainText (filter (\<lambda>line. trim line \<noteq> []) (split_lines [] content))"

section \<open>The cross-check\<close>

text \<open>
  The value compared for one element: \<open>item[actualComparisonColumn]\<close> for a row of a
  structured file, the line itself for a text file.
\<close>

fun item_value :: "string \<Rightarrow> item \<Rightarrow> jsval" where
  "item_value col (Row r) = get_prop r col"
| "item_value col (Line l) = JStr l"

text \<open>The lookup set built from File B.\<close>

definition values2Set :: "string \<Rightarrow> item list \<Rightarrow> string set" where
  "values2Set col data2 =
     fold (\<lambda>item s. let v = item_value col item
                     in if nonempty v then insert (js_String v) s else s) data2 {}"

text \<open>
  The \<open>for (const item1 of data1)\<close> loop; \<open>foundInFile2\<close> and \<open>missingInFile2\<close> are the
  accumulators and \<open>push\<close> appends.
\<close>

fun partition_loop ::
  "string \<Rightarrow> string set \<Rightarrow> item list \<Rightarrow> item list \<Rightarrow> item list \<Rightarrow> item list \<times> item list" where
  "partition_loop col vs [] foundInFile2 missingInFile2 = (foundInFile2, missingInFile2)"
| "partition_loop col vs (item1 # rest) foundInFile2 missingInFile2 =
     (let value1 = item_value col item1
      in if nonempty value1 then
           (if js_String value1 \<in> vs
            then partition_loop col vs rest (foundInFile2 @ [item1]) missingInFile2
            else partition_loop col vs rest foundInFile2 (missingInFile2 @ [item1]))
         else partition_loop col vs rest foundInFile2 (missingInFile2 @ [item1]))"

text \<open>Lookup set and loop together: the pair \<open>(foundInFile2, missingInFile2)\<close>.\<close>

definition reconcile :: "string \<Rightarrow> fileContent \<Rightarrow> fileContent \<Rightarrow> item list \<times> item list" where
  "reconcile col fileAContent fileBContent =
     partition_loop col (values2Set col (data fileBContent)) (data fileAContent) [] []"

text \<open>
  The choice of \<open>actualComparisonColumn\<close>: the error message on the left, the column on
  the right. \<open>selectedColumn\<close> is \<open>None\<close> when the form field is missing (\<open>undefined\<close>), which
  no header equals.
\<close>

definition resolve_key :: "string option \<Rightarrow> fileContent \<Rightarrow> fileContent \<Rightarrow> string + string" where
  "resolve_key selectedColumn fileAContent fileBContent =
     (if ftype fileAContent = structured \<and> ftype fileBContent = structured then
        (case selectedColumn of
           None \<Rightarrow> Inl (''Selected column '' @ [CHR 0x27] @ ''undefined'' @ [CHR 0x27]
                    @ '' not found in File A headers. Please select a valid column.'')
         | Some c \<Rightarrow>
             if c \<in> set (headers fileAContent) then Inr c
             else Inl (''Selected column '' @ [CHR 0x27] @ c @ [CHR 0x27]
                    @ '' not found in File A headers. Please select a valid column.''))
      else Inr ''Line Content'')"

text \<open>
  The success response. \<open>matchedCsv\<close> and \<open>missingCsv\<close> are the sequences handed to
  \<open>saveCsvFile\<close>, \<open>None\<close> when no file is written.
\<close>

record result =
  message :: string
  foundCount :: nat
  missingCount :: nat
  totalFile1Rows :: nat
  missingContents :: "item list"
  matchedCsv :: "item list option"
  missingCsv :: "item list option"
  comparisonColumn :: string

datatype response = Failure nat string | Success result

text \<open>The body of the \<open>POST /cross-check\<close> handler, from the two ingested files on.\<close>

definition cross_check :: "string option \<Rightarrow> fileContent \<Rightarrow> fileContent \<Rightarrow> response" where
  "cross_check selectedColumn fileAContent fileBContent =
     (let data1 = data fileAContent; data2 = data fileBContent
      in case resolve_key selectedColumn fileAContent fileBContent of
           Inl msg \<Rightarrow> Failure 400 msg
         | Inr actualComparisonColumn \<Rightarrow>
             if length data1 = 0 then
               Success \<lparr>message = ''File A is empty. Nothing to cross-check.'',
                 foundCount = 0, missingCount = 0, totalFile1Rows = 0,
                 missingContents = [], matchedCsv = None, missingCsv = None,
                 comparisonColumn = actualComparisonColumn\<rparr>
             else if length data2 = 0 then
               Success \<lparr>message = ''File B is empty. No contents to compare against.'',
                 foundCount = 0, missingCount = 0, totalFile1Rows = length data1,
                 missingContents = [], matchedCsv = None, missingCsv = None,
                 comparisonColumn = actualComparisonColumn\<rparr>
             else
               let (foundInFile2, missingInFile2) =
                     reconcile actualComparisonColumn fileAContent fileBContent
               in Success \<lparr>message = ''Cross-check completed successfully! CSV files generated.'',
                    foundCount = length foundInFile2,
                    missingCount = length missingInFile2,
                    totalFile1Rows = length data1,
                    missingContents = take 10 missingInFile2,
                    matchedCsv = (if length foundInFile2 > 0 then Some foundInFile2 else None),
                    missingCsv = (if length missingInFile2 > 0 then Some missingInFile2 else None),
                    comparisonColumn = actualComparisonColumn\<rparr>)"

text \<open>
  The handler with its first check: a missing upload is answered with status 400 before
  anything is read.
\<close>

definition post_cross_check :: "string option \<Rightarrow> upload option \<Rightarrow> upload option \<Rightarrow> response" where
  "post_cross_check selectedColumn fileA fileB =
     (case (fileA, fileB) of
        (Some a, Some b) \<Rightarrow> cross_check selectedColumn (readFileContent a) (readFileContent b)
      | _ \<Rightarrow> Failure 400 ''Please upload both File A and File B.'')"

section \<open>The historical variant\<close>




text \<open>
  Its \<open>readFileContent\<close> takes the header row as it is. A header cell is used as a property
  key (\<open>obj[header]\<close>), which turns it into a string; \<open>forEach\<close> skips the holes.
\<close>

fun prop_key :: "cell \<Rightarrow> string" where
  "prop_key (Val v) = js_String (of_scalar v)"
| "prop_key (DateObj d) = date_text d"
| "prop_key Hole = ''undefined''"

definition hist_build_row :: "cell list \<Rightarrow> cell list \<Rightarrow> row" where
  "hist_build_row hs r =
     fold (\<lambda>(header, index) obj.
             if header = Hole then obj
             else set_prop obj (prop_key header) (cell_value (row_at r index)))
       (zip hs [0 ..< length hs]) (Obj [])"

record hist_fileContent =
  hist_data :: "item list"
  hist_type :: file_type
  comparisonKey :: cell

fun hist_readFileContent :: "upload \<Rightarrow> hist_fileContent" where
  "hist_readFileContent (Sheet json) =
     (if json = [] then
        \<lparr>hist_data = [], hist_type = structured, comparisonKey = Val SNull\<rparr>
      else
        let hs = hd json;
            rows = map (hist_build_row hs) (tl json)
        in \<lparr>hist_data = map Row rows, hist_type = structured,
             comparisonKey =
               (if length hs > 0 then (if hd hs = Hole then Val SUndefined else hd hs)
                else Val SNull)\<rparr>)"
| "hist_readFileContent (Text content) =
     \<lparr>hist_data = map Line (filter (\<lambda>line. trim line \<noteq> []) (split_lines [] content)),
      hist_type = plain_text, comparisonKey = Val (SStr ''line_content'')\<rparr>"

section \<open>Characterising predicates and sample files\<close>

text \<open>The test of the loop body that sends an element to \<open>foundInFile2\<close>.\<close>

definition is_match :: "string \<Rightarrow> string set \<Rightarrow> item \<Rightarrow> bool" where
  "is_match col vs item1 =
     (nonempty (item_value col item1) \<and> js_String (item_value col item1) \<in> vs)"


text \<open>The two structured files of the specification's first scenario.\<close>

abbreviation scenarioA :: fileContent where
  "scenarioA \<equiv> Structured [''id'', ''name'']
     [Obj [(''id'', JStr ''1''), (''name'', JStr ''x'')], Obj [(''id'', JStr ''2''), (''name'', JStr ''y'')]]
     (Some ''id'')"

abbreviation scenarioB :: fileContent where
  "scenarioB \<equiv> Structured [''id'', ''name''] [Obj [(''id'', JStr ''2''), (''name'', JStr ''z'')]] (Some ''id'')"

section \<open>The loops as filters\<close>

lemma partition_loop_filter:
  "partition_loop col vs xs f m =
     (f @ filter (is_match col vs) xs, m @ filter (\<lambda>x. \<not> is_match col vs x) xs)"
  by (induction xs arbitrary: f m) (simp_all add: is_match_def Let_def)

lemma reconcile_filter:
  "reconcile col A B =
     (filter (is_match col (values2Set col (data B))) (data A),
      filter (\<lambda>x. \<not> is_match col (values2Set col (data B)) x) (data A))"
  by (simp add: reconcile_def partition_loop_filter)



lemma values2Set_fold:
  "fold (\<lambda>item s. let v = item_value col item
                   in if nonempty v then insert (js_String v) s else s) xs s0
   = s0 \<union> {js_String (item_value col b) | b. b \<in> set xs \<and> nonempty (item_value col b)}"
  by (induction xs arbitrary: s0) (auto simp: Let_def)

lemma values2Set_eq:
  "values2Set col xs = {js_String (item_value col b) | b. b \<in> set xs \<and> nonempty (item_value col b)}"
  by (simp add: values2Set_def values2Set_fold)






lemma cross_check_full:
  assumes "resolve_key sel A B = Inr col" "data A \<noteq> []" "data B \<noteq> []"
  shows "cross_check sel A B =
     Success \<lparr>message = ''Cross-check completed successfully! CSV files generated.'',
       foundCount = length (fst (reconcile col A B)),
       missingCount = length (snd (reconcile col A B)),
       totalFile1Rows = length (data A),
       missingContents = take 10 (snd (reconcile col A B)),
       matchedCsv = (if fst (reconcile col A B) = [] then None else Some (fst (reconcile col A B))),
       missingCsv = (if snd (reconcile col A B) = [] then None else Some (snd (reconcile col A B))),
       comparisonColumn = col\<rparr>"
  using assms by (simp add: cross_check_def Let_def split: prod.split)

lemma cross_check_emptyA:
  assumes "resolve_key sel A B = Inr col" "data A = []"
  shows "cross_check sel A B =
     Success \<lparr>message = ''File A is empty. Nothing to cross-check.'',
       foundCount = 0, missingCount = 0, totalFile1Rows = 0,
       missingContents = [], matchedCsv = None, missingCsv = None,
       comparisonColumn = col\<rparr>"
  using assms by (simp add: cross_check_def)

lemma cross_check_emptyB:
  assumes "resolve_key sel A B = Inr col" "data A \<noteq> []" "data B = []"
  shows "cross_check sel A B =
     Success \<lparr>message = ''File B is empty. No contents to compare against.'',
       foundCount = 0, missingCount = 0, totalFile1Rows = length (data A),
       missingContents = [], matchedCsv = None, missingCsv = None,
       comparisonColumn = col\<rparr>"
  using assms by (simp add: cross_check_def)

lemma cross_check_failure:
  assumes "resolve_key sel A B = Inl msg"
  shows "cross_check sel A B = Failure 400 msg"
  using assms by (simp add: cross_check_def)

lemma cross_check_outputs:
  assumes "cross_check sel A B = Success r"
  shows "(matchedCsv r = None \<and> missingCsv r = None \<and> missingContents r = [])
       \<or> (\<exists>col. matchedCsv r = (if fst (reconcile col A B) = [] then None
                                  else Some (fst (reconcile col A B)))
              \<and> missingCsv r = (if snd (reconcile col A B) = [] then None
                                 else Some (snd (reconcile col A B)))
              \<and> missingContents r = take 10 (snd (reconcile col A B)))"
proof (cases "resolve_key sel A B")
  case (Inl msg)
  with assms show ?thesis by (simp add: cross_check_failure)
next
  case (Inr col)
  consider "data A = []" | "data A \<noteq> []" "data B = []" | "data A \<noteq> []" "data B \<noteq> []"
    by blast
  then show ?thesis
  proof cases
    case 1
    with assms Inr show ?thesis by (auto simp: cross_check_emptyA)
  next
    case 2
    with assms Inr show ?thesis by (auto simp: cross_check_emptyB)
  next
    case 3
    with assms Inr have "r = \<lparr>message = ''Cross-check completed successfully! CSV files generated.'',
       foundCount = length (fst (reconcile col A B)),
       missingCount = length (snd (reconcile col A B)),
       totalFile1Rows = length (data A),
       missingContents = take 10 (snd (reconcile col A B)),
       matchedCsv = (if fst (reconcile col A B) = [] then None else Some (fst (reconcile col A B))),
       missingCsv = (if snd (reconcile col A B) = [] then None else Some (snd (reconcile col A B))),
       comparisonColumn = col\<rparr>"
      by (simp add: cross_check_full)
    then show ?thesis by auto
  qed
qed

lemma scenario_reconcile:
  "reconcile ''id'' scenarioA scenarioB =
     ([Row (Obj [(''id'', JStr ''2''), (''name'', JStr ''y'')])],
      [Row (Obj [(''id'', JStr ''1''), (''name'', JStr ''x'')])])"
  by (simp add: reconcile_def values2Set_def inherited_def Object_prototype_names_def nonempty_def)

section \<open>Ingestion and sample results\<close>

lemma scenario_cross_check:
  "cross_check (Some ''id'') scenarioA scenarioB =
     Success \<lparr>message = ''Cross-check completed successfully! CSV files generated.'',
       foundCount = 1, missingCount = 1, totalFile1Rows = 2,
       missingContents = [Row (Obj [(''id'', JStr ''1''), (''name'', JStr ''x'')])],
       matchedCsv = Some [Row (Obj [(''id'', JStr ''2''), (''name'', JStr ''y'')])],
       missingCsv = Some [Row (Obj [(''id'', JStr ''1''), (''name'', JStr ''x'')])],
       comparisonColumn = ''id''\<rparr>"
proof -
  have k: "resolve_key (Some ''id'') scenarioA scenarioB = Inr ''id''"
    by (simp add: resolve_key_def)
  show ?thesis
    by (simp add: cross_check_full [OF k] scenario_reconcile)
qed







lemma ftype_Sheet: "ftype (readFileContent (Sheet raw)) = structured"
  by (simp add: Let_def)

lemma headers_Sheet:
  "headers (readFileContent (Sheet raw)) = (if raw = [] then [] else clean_headers (hd raw))"
  by (simp add: Let_def)

lemma data_Sheet:
  "data (readFileContent (Sheet raw)) =
     (if raw = [] then [] else map (\<lambda>r. Row (build_row (clean_headers (hd raw)) r)) (tl raw))"
  by (simp add: Let_def)

declare readFileContent.simps [simp del]


lemma values2Set_lines: "values2Set col (map Line ls) = {l \<in> set ls. l \<noteq> []}"
  apply (auto simp: values2Set_eq nonempty_def)
  subgoal for l by (rule exI [of _ "Line l"]) simp
  done

lemma trim_not_blank:
  assumes "trim s \<noteq> []"
  shows "\<exists>c \<in> set (trim s). \<not> is_ws c"
proof -
  let ?d = "dropWhile is_ws (rev (dropWhile is_ws s))"
  from assms have ne: "?d \<noteq> []" by (simp add: trim_def)
  then have "\<not> is_ws (hd ?d)" by (rule hd_dropWhile)
  moreover from ne have "hd ?d \<in> set ?d" by simp
  ultimately show ?thesis by (auto simp: trim_def)
qed

lemma header_text_not_blank:
  assumes "header_text c \<noteq> []"
  shows "\<exists>x \<in> set (header_text c). \<not> is_ws x"
  using assms by (cases c) (simp_all add: trim_not_blank)

section \<open>The claims\<close>

text \<open>
  C1. When File A and File B both have at least one row and the comparison column
  resolves, the handler answers with a success whose counts are the lengths of the two
  output sequences and add up to the number of rows of File A; every element of File A
  lands in exactly one of the two sequences (as multisets they add up to \<open>data\<close> of File A,
  and they share no element).
\<close>

theorem C1_partition_total:
  assumes "data A \<noteq> []" and "data B \<noteq> []" and "resolve_key sel A B = Inr col"
  shows "\<exists>r. cross_check sel A B = Success r
           \<and> foundCount r + missingCount r = totalFile1Rows r
           \<and> totalFile1Rows r = length (data A)
           \<and> foundCount r = length (fst (reconcile col A B))
           \<and> missingCount r = length (snd (reconcile col A B))
           \<and> mset (fst (reconcile col A B)) + mset (snd (reconcile col A B)) = mset (data A)
           \<and> set (fst (reconcile col A B)) \<inter> set (snd (reconcile col A B)) = {}"
proof -
  let ?P = "is_match col (values2Set col (data B))"
  have len: "length (filter ?P (data A)) + length (filter (\<lambda>x. \<not> ?P x) (data A)) = length (data A)"
    by (rule sum_length_filter_compl)
  have ms: "mset (filter ?P (data A)) + mset (filter (\<lambda>x. \<not> ?P x) (data A)) = mset (data A)"
    by simp
  have dj: "set (filter ?P (data A)) \<inter> set (filter (\<lambda>x. \<not> ?P x) (data A)) = {}"
    by auto
  show ?thesis
    using len ms dj by (simp add: cross_check_full [OF assms(3) assms(1) assms(2)] reconcile_filter)
qed

text \<open>
  The first scenario of the specification, through the statement above: two rows in
  File A, one found and one missing.
\<close>

theorem C1_partition_total_witness:
  "data scenarioA \<noteq> [] \<and> data scenarioB \<noteq> []
   \<and> resolve_key (Some ''id'') scenarioA scenarioB = Inr ''id''
   \<and> (\<exists>r. cross_check (Some ''id'') scenarioA scenarioB = Success r
        \<and> foundCount r = 1 \<and> missingCount r = 1 \<and> totalFile1Rows r = 2
        \<and> foundCount r + missingCount r = totalFile1Rows r)"
proof -
  have k: "resolve_key (Some ''id'') scenarioA scenarioB = Inr ''id''"
    by (simp add: resolve_key_def)
  have a: "data scenarioA \<noteq> []" and b: "data scenarioB \<noteq> []"
    by simp_all
  from C1_partition_total [OF a b k] obtain r where
    r: "cross_check (Some ''id'') scenarioA scenarioB = Success r"
       "foundCount r + missingCount r = totalFile1Rows r"
       "totalFile1Rows r = length (data scenarioA)"
       "foundCount r = length (fst (reconcile ''id'' scenarioA scenarioB))"
       "missingCount r = length (snd (reconcile ''id'' scenarioA scenarioB))"
    by blast
  have "foundCount r = 1" "missingCount r = 1" "totalFile1Rows r = 2"
    using r(3,4,5) by (simp_all add: scenario_reconcile)
  with r(1,2) k a b show ?thesis by blast
qed

text \<open>
  C2. For two structured files, a row of File A is in the matched sequence exactly when
  its value at the column is not empty and some row of File B holds a non-empty value with
  the same \<open>String\<close> form; the values themselves need not be equal. In particular a row
  holding the number 5 is matched by a row holding the string \<open>"5"\<close>, and the other way
  round, and is then not in the missing sequence.
\<close>

theorem C2_string_coerced_equality:
  "(rA \<in> set rowsA \<longrightarrow>
      (Row rA \<in> set (fst (reconcile col (Structured hA rowsA fA) (Structured hB rowsB fB)))
       \<longleftrightarrow> nonempty (get_prop rA col)
            \<and> (\<exists>rB \<in> set rowsB. nonempty (get_prop rB col)
                 \<and> js_String (get_prop rA col) = js_String (get_prop rB col))))
   \<and> (rA \<in> set rowsA \<and> rB \<in> set rowsB
        \<and> (get_prop rA col = JNum 5 \<and> get_prop rB col = JStr ''5''
            \<or> get_prop rA col = JStr ''5'' \<and> get_prop rB col = JNum 5)
       \<longrightarrow> Row rA \<in> set (fst (reconcile col (Structured hA rowsA fA) (Structured hB rowsB fB)))
          \<and> Row rA \<notin> set (snd (reconcile col (Structured hA rowsA fA) (Structured hB rowsB fB))))"
proof -
  let ?A = "Structured hA rowsA fA" and ?B = "Structured hB rowsB fB"
  have vs: "values2Set col (data ?B)
            = {js_String (get_prop rB col) | rB. rB \<in> set rowsB \<and> nonempty (get_prop rB col)}"
    apply (auto simp: values2Set_eq)
    subgoal for rB by (rule exI [of _ "Row rB"]) simp
    done
  have gen: "Row r \<in> set (fst (reconcile col ?A ?B))
       \<longleftrightarrow> r \<in> set rowsA \<and> nonempty (get_prop r col)
            \<and> (\<exists>rB \<in> set rowsB. nonempty (get_prop rB col)
                 \<and> js_String (get_prop r col) = js_String (get_prop rB col))" for r
    unfolding reconcile_filter fst_conv set_filter is_match_def vs by auto
  have compl: "Row r \<in> set (snd (reconcile col ?A ?B))
       \<longleftrightarrow> r \<in> set rowsA \<and> Row r \<notin> set (fst (reconcile col ?A ?B))" for r
    unfolding reconcile_filter fst_conv snd_conv set_filter by auto
  have five: "js_String (JNum 5) = ''5''"
    by (simp add: digits.simps)
  have ne: "nonempty (JNum 5)" "nonempty (JStr ''5'')"
    by (simp_all add: nonempty_def)
  show ?thesis
  proof (intro conjI impI)
    assume "rA \<in> set rowsA"
    then show "Row rA \<in> set (fst (reconcile col ?A ?B))
       \<longleftrightarrow> nonempty (get_prop rA col)
            \<and> (\<exists>rB \<in> set rowsB. nonempty (get_prop rB col)
                 \<and> js_String (get_prop rA col) = js_String (get_prop rB col))"
      by (simp add: gen)
  next
    assume h: "rA \<in> set rowsA \<and> rB \<in> set rowsB
        \<and> (get_prop rA col = JNum 5 \<and> get_prop rB col = JStr ''5''
            \<or> get_prop rA col = JStr ''5'' \<and> get_prop rB col = JNum 5)"
    then have "nonempty (get_prop rA col)" "nonempty (get_prop rB col)"
      "js_String (get_prop rA col) = js_String (get_prop rB col)"
      using five ne by auto
    with h show "Row rA \<in> set (fst (reconcile col ?A ?B))"
      unfolding gen by blast
    then show "Row rA \<notin> set (snd (reconcile col ?A ?B))"
      by (simp add: compl)
  qed
qed

text \<open>
  Number 5 in File A against string \<open>"5"\<close> in File B, and the reverse.
\<close>

theorem C2_string_coerced_equality_witness:
  "reconcile ''id'' (Structured [''id''] [Obj [(''id'', JNum 5)]] (Some ''id''))
                    (Structured [''id''] [Obj [(''id'', JStr ''5'')]] (Some ''id''))
     = ([Row (Obj [(''id'', JNum 5)])], [])
   \<and> reconcile ''id'' (Structured [''id''] [Obj [(''id'', JStr ''5'')]] (Some ''id''))
                      (Structured [''id''] [Obj [(''id'', JNum 5)]] (Some ''id''))
     = ([Row (Obj [(''id'', JStr ''5'')])], [])"
proof -
  let ?n = "Obj [(''id'', JNum 5)]" and ?s = "Obj [(''id'', JStr ''5'')]"
  let ?A = "Structured [''id''] [?n] (Some ''id'')" and ?B = "Structured [''id''] [?s] (Some ''id'')"
  have gn: "get_prop ?n ''id'' = JNum 5" and gs: "get_prop ?s ''id'' = JStr ''5''"
    by (simp_all add: inherited_def Object_prototype_names_def)
  have 1: "Row ?n \<in> set (fst (reconcile ''id'' ?A ?B)) \<and> Row ?n \<notin> set (snd (reconcile ''id'' ?A ?B))"
    using C2_string_coerced_equality [where rA = ?n and rowsA = "[?n]" and rB = ?s and rowsB = "[?s]"
        and col = "''id''" and hA = "[''id'']" and fA = "Some ''id''" and hB = "[''id'']" and fB = "Some ''id''", THEN conjunct2]
      gn gs by simp
  have 2: "Row ?s \<in> set (fst (reconcile ''id'' ?B ?A)) \<and> Row ?s \<notin> set (snd (reconcile ''id'' ?B ?A))"
    using C2_string_coerced_equality [where rA = ?s and rowsA = "[?s]" and rB = ?n and rowsB = "[?n]"
        and col = "''id''" and hA = "[''id'']" and fA = "Some ''id''" and hB = "[''id'']" and fB = "Some ''id''", THEN conjunct2]
      gn gs by simp
  have f1: "reconcile ''id'' ?A ?B = (filter (is_match ''id'' (values2Set ''id'' (data ?B))) [Row ?n],
      filter (\<lambda>x. \<not> is_match ''id'' (values2Set ''id'' (data ?B)) x) [Row ?n])"
    by (simp add: reconcile_filter)
  have f2: "reconcile ''id'' ?B ?A = (filter (is_match ''id'' (values2Set ''id'' (data ?A))) [Row ?s],
      filter (\<lambda>x. \<not> is_match ''id'' (values2Set ''id'' (data ?A)) x) [Row ?s])"
    by (simp add: reconcile_filter)
  from 1 have "reconcile ''id'' ?A ?B = ([Row ?n], [])"
    unfolding f1 by (simp split: if_splits)
  moreover from 2 have "reconcile ''id'' ?B ?A = ([Row ?s], [])"
    unfolding f2 by (simp split: if_splits)
  ultimately show ?thesis by simp
qed






text \<open>
  C5. When File B has no rows, File A has at least one and the comparison column
  resolves, the handler answers with the "File B is empty" success: both counts are zero,
  the sample of missing contents is empty and no file is written.
\<close>

theorem C5_empty_file_B:
  assumes "data B = []" and "data A \<noteq> []" and "resolve_key sel A B = Inr col"
  shows "cross_check sel A B =
     Success \<lparr>message = ''File B is empty. No contents to compare against.'',
       foundCount = 0, missingCount = 0, totalFile1Rows = length (data A),
       missingContents = [], matchedCsv = None, missingCsv = None,
       comparisonColumn = col\<rparr>"
  using assms by (simp add: cross_check_emptyB)

text \<open>
  The two rows of the first scenario against a structured File B that has a header row
  and no data row.
\<close>

theorem C5_empty_file_B_witness:
  "data (readFileContent (Sheet [[Val (SStr ''id'')]])) = [] \<and> data scenarioA \<noteq> []
   \<and> resolve_key (Some ''id'') scenarioA (readFileContent (Sheet [[Val (SStr ''id'')]])) = Inr ''id''
   \<and> cross_check (Some ''id'') scenarioA (readFileContent (Sheet [[Val (SStr ''id'')]])) =
     Success \<lparr>message = ''File B is empty. No contents to compare against.'',
       foundCount = 0, missingCount = 0, totalFile1Rows = 2,
       missingContents = [], matchedCsv = None, missingCsv = None,
       comparisonColumn = ''id''\<rparr>"
proof -
  let ?B = "readFileContent (Sheet [[Val (SStr ''id'')]])"
  have b: "data ?B = []" by (simp add: data_Sheet)
  have a: "data scenarioA \<noteq> []" by simp
  have k: "resolve_key (Some ''id'') scenarioA ?B = Inr ''id''"
    by (simp add: resolve_key_def ftype_Sheet headers_Sheet clean_headers_def trim_def is_ws_def)
  show ?thesis
    using C5_empty_file_B [OF b a k] a b k by simp
qed

text \<open>
  C6, as stated, fails: a structured File A without any row has no headers, so against a
  structured File B every selected column is refused before the emptiness of File A is
  looked at.
\<close>

theorem C6_counterexample:
  "data (readFileContent (Sheet [])) = []
   \<and> cross_check (Some ''id'') (readFileContent (Sheet [])) scenarioB
       = Failure 400 (''Selected column '' @ [CHR 0x27] @ ''id'' @ [CHR 0x27]
                    @ '' not found in File A headers. Please select a valid column.'')"
  by (simp add: readFileContent.simps cross_check_def resolve_key_def)

text \<open>
  C6, amended. When File A has no rows, the handler answers with the "File A is empty"
  success (counts zero, nothing written) unless both files are structured and the selected
  column is not among the headers of File A; in that case it fails with status 400.
\<close>

theorem C6_empty_file_A:
  assumes "data A = []"
  shows "if ftype A = structured \<and> ftype B = structured \<and> sel \<notin> Some ` set (headers A)
         then \<exists>msg. cross_check sel A B = Failure 400 msg
         else \<exists>col. cross_check sel A B =
                Success \<lparr>message = ''File A is empty. Nothing to cross-check.'',
                  foundCount = 0, missingCount = 0, totalFile1Rows = 0,
                  missingContents = [], matchedCsv = None, missingCsv = None,
                  comparisonColumn = col\<rparr>"
proof (cases "resolve_key sel A B")
  case (Inl msg)
  then have "ftype A = structured \<and> ftype B = structured \<and> sel \<notin> Some ` set (headers A)"
    by (auto simp: resolve_key_def split: option.splits if_splits)
  with Inl show ?thesis by (simp add: cross_check_failure)
next
  case (Inr col)
  then have "\<not> (ftype A = structured \<and> ftype B = structured \<and> sel \<notin> Some ` set (headers A))"
    by (auto simp: resolve_key_def split: option.splits if_splits)
  with Inr assms show ?thesis by (simp add: cross_check_emptyA)
qed

text \<open>
  An empty text file with an arbitrary column, a structured file with a header row only
  and its own column, and a structured file with no row at all.
\<close>

theorem C6_empty_file_A_witness:
  "data (PlainText []) = []
   \<and> (\<exists>col. cross_check (Some ''zzz'') (PlainText []) scenarioB =
         Success \<lparr>message = ''File A is empty. Nothing to cross-check.'',
           foundCount = 0, missingCount = 0, totalFile1Rows = 0,
           missingContents = [], matchedCsv = None, missingCsv = None,
           comparisonColumn = col\<rparr>)
   \<and> data (readFileContent (Sheet [[Val (SStr ''id'')]])) = []
   \<and> (\<exists>col. cross_check (Some ''id'') (readFileContent (Sheet [[Val (SStr ''id'')]])) scenarioB =
         Success \<lparr>message = ''File A is empty. Nothing to cross-check.'',
           foundCount = 0, missingCount = 0, totalFile1Rows = 0,
           missingContents = [], matchedCsv = None, missingCsv = None,
           comparisonColumn = col\<rparr>)
   \<and> data (readFileContent (Sheet [])) = []
   \<and> (\<exists>msg. cross_check (Some ''id'') (readFileContent (Sheet [])) scenarioB = Failure 400 msg)"
proof -
  let ?H = "readFileContent (Sheet [[Val (SStr ''id'')]])" and ?E = "readFileContent (Sheet [])"
  have h: "?H = Structured [''id''] [] (Some ''id'')"
    by (simp add: readFileContent.simps clean_headers_def trim_def is_ws_def)
  have e: "?E = Structured [] [] None"
    by (simp add: readFileContent.simps)
  have 1: "data (PlainText []) = []" and 2: "data ?H = []" and 3: "data ?E = []"
    by (simp_all add: h e)
  show ?thesis
    using C6_empty_file_A [OF 1, of scenarioB "Some ''zzz''"]
      C6_empty_file_A [OF 2, of scenarioB "Some ''id''"]
      C6_empty_file_A [OF 3, of scenarioB "Some ''id''"]
    by (simp add: h e)
qed

text \<open>
  C7, as stated, fails for a structured File A against a text File B: the value compared
  for a row of File A is its property named \<open>Line Content\<close>, here \<open>undefined\<close>, not a text
  of the row, and the row is missing although File B holds the line \<open>foo\<close>.
\<close>

theorem C7_counterexample:
  "ftype (PlainText [''foo'']) = plain_text
   \<and> resolve_key (Some ''id'') (Structured [''id''] [Obj [(''id'', JStr ''foo'')]] (Some ''id''))
        (PlainText [''foo'']) = Inr ''Line Content''
   \<and> item_value ''Line Content'' (Row (Obj [(''id'', JStr ''foo'')])) = JUndefined
   \<and> values2Set ''Line Content'' (data (PlainText [''foo''])) = {''foo''}
   \<and> reconcile ''Line Content'' (Structured [''id''] [Obj [(''id'', JStr ''foo'')]] (Some ''id''))
        (PlainText [''foo'']) = ([], [Row (Obj [(''id'', JStr ''foo'')])])"
  by (simp add: resolve_key_def inherited_def Object_prototype_names_def reconcile_def values2Set_def nonempty_def)

text \<open>
  C7, amended. When at least one of the two files is a text file, the comparison column
  is \<open>Line Content\<close> whatever column was selected, and the handler succeeds and reports that
  column. When File A is a text file each of its lines is compared by its full text: a
  line is matched exactly when it is not empty and in the lookup set. The lookup set of a
  text File B is the set of its non-empty lines.
\<close>

theorem C7_line_content_key:
  assumes "ftype A = plain_text \<or> ftype B = plain_text"
  shows "resolve_key sel A B = Inr ''Line Content''
    \<and> (\<exists>r. cross_check sel A B = Success r \<and> comparisonColumn r = ''Line Content'')
    \<and> cross_check sel A B = cross_check sel' A B
    \<and> (\<forall>ls. A = PlainText ls \<longrightarrow>
          (\<forall>l. item_value ''Line Content'' (Line l) = JStr l)
          \<and> reconcile ''Line Content'' A B =
              (map Line (filter (\<lambda>l. l \<noteq> [] \<and> l \<in> values2Set ''Line Content'' (data B)) ls),
               map Line (filter (\<lambda>l. \<not> (l \<noteq> [] \<and> l \<in> values2Set ''Line Content'' (data B))) ls)))
    \<and> (\<forall>ls. B = PlainText ls \<longrightarrow> values2Set ''Line Content'' (data B) = {l \<in> set ls. l \<noteq> []})"
proof -
  have k: "resolve_key s A B = Inr ''Line Content''" for s
    using assms by (auto simp: resolve_key_def)
  have same: "cross_check sel A B = cross_check sel' A B"
    by (simp add: cross_check_def k)
  have succ: "\<exists>r. cross_check sel A B = Success r \<and> comparisonColumn r = ''Line Content''"
    using cross_check_emptyA [OF k [of sel]] cross_check_emptyB [OF k [of sel]]
      cross_check_full [OF k [of sel]]
    by (cases "data A = []"; cases "data B = []") simp_all
  have plainA: "reconcile ''Line Content'' (PlainText ls) B =
      (map Line (filter (\<lambda>l. l \<noteq> [] \<and> l \<in> values2Set ''Line Content'' (data B)) ls),
       map Line (filter (\<lambda>l. \<not> (l \<noteq> [] \<and> l \<in> values2Set ''Line Content'' (data B))) ls))" for ls
    by (simp add: reconcile_filter filter_map o_def is_match_def nonempty_def)
  have plainB: "values2Set ''Line Content'' (data (PlainText ls)) = {l \<in> set ls. l \<noteq> []}" for ls
    by (simp add: values2Set_lines)
  show ?thesis
    using k [of sel] same succ plainA plainB by simp
qed

text \<open>
  The text scenario of the specification: lines \<open>foo\<close>, \<open>bar\<close> against the line \<open>bar\<close>.
\<close>

theorem C7_line_content_key_witness:
  "(ftype (PlainText [''foo'', ''bar'']) = plain_text \<or> ftype (PlainText [''bar'']) = plain_text)
   \<and> resolve_key (Some ''id'') (PlainText [''foo'', ''bar'']) (PlainText [''bar'']) = Inr ''Line Content''
   \<and> reconcile ''Line Content'' (PlainText [''foo'', ''bar'']) (PlainText [''bar''])
       = ([Line ''bar''], [Line ''foo''])"
proof -
  have p: "ftype (PlainText [''foo'', ''bar'']) = plain_text \<or> ftype (PlainText [''bar'']) = plain_text"
    by simp
  show ?thesis
    using C7_line_content_key [OF p, of "Some ''id''" "Some ''id''"] by simp
qed

text \<open>
  C8. The matched and the missing sequence are subsequences of \<open>data\<close> of File A, in its
  row order; so is everything the handler hands on: the contents of the two written files
  and the sample of missing contents.
\<close>

theorem C8_order_preserved:
  "subseq (fst (reconcile col A B)) (data A) \<and> subseq (snd (reconcile col A B)) (data A)
   \<and> (\<forall>r. cross_check sel A B = Success r \<longrightarrow>
        (\<forall>ms. matchedCsv r = Some ms \<longrightarrow> subseq ms (data A))
        \<and> (\<forall>ms. missingCsv r = Some ms \<longrightarrow> subseq ms (data A))
        \<and> subseq (missingContents r) (data A))"
proof -
  have f: "subseq (fst (reconcile c A B)) (data A)" for c
    by (simp add: reconcile_filter)
  have m: "subseq (snd (reconcile c A B)) (data A)" for c
    by (simp add: reconcile_filter)
  have t: "subseq (take 10 (snd (reconcile c A B))) (data A)" for c
  proof -
    have "subseq (take 10 (snd (reconcile c A B))) (snd (reconcile c A B))"
      by (simp add: prefix_imp_subseq take_is_prefix)
    then show ?thesis
      using m [of c] subseq_order.order_trans by blast
  qed
  have out: "(\<forall>ms. matchedCsv r = Some ms \<longrightarrow> subseq ms (data A))
        \<and> (\<forall>ms. missingCsv r = Some ms \<longrightarrow> subseq ms (data A))
        \<and> subseq (missingContents r) (data A)" if "cross_check sel A B = Success r" for r
    using cross_check_outputs [OF that] f m t by (auto split: if_splits)
  from f m out show ?thesis by blast
qed

text \<open>
  The first scenario: each written file holds one row of File A.
\<close>

theorem C8_order_preserved_witness:
  "(\<exists>r. cross_check (Some ''id'') scenarioA scenarioB = Success r
       \<and> matchedCsv r = Some [Row (Obj [(''id'', JStr ''2''), (''name'', JStr ''y'')])]
       \<and> missingCsv r = Some [Row (Obj [(''id'', JStr ''1''), (''name'', JStr ''x'')])])
   \<and> subseq [Row (Obj [(''id'', JStr ''2''), (''name'', JStr ''y'')])] (data scenarioA)
   \<and> subseq [Row (Obj [(''id'', JStr ''1''), (''name'', JStr ''x'')])] (data scenarioA)"
  using C8_order_preserved [of "''id''" scenarioA scenarioB "Some ''id''"]
  by (simp add: scenario_cross_check)

text \<open>
  C9, as stated, fails: two header cells with the same name give two equal headers. The
  historical \<open>readFileContent\<close> cleans nothing: a header cell holding one space becomes a
  property of every row.
\<close>

theorem C9_counterexample:
  "headers (readFileContent (Sheet [[Val (SStr ''id''), Val (SStr ''id'')]])) = [''id'', ''id'']
   \<and> \<not> distinct (headers (readFileContent (Sheet [[Val (SStr ''id''), Val (SStr ''id'')]])))
   \<and> hist_data (hist_readFileContent
         (Sheet [[Val (SStr '' ''), Val (SStr ''x'')], [Val (SStr ''a''), Val (SStr ''b'')]]))
       = [Row (Obj [('' '', JStr ''a''), (''x'', JStr ''b'')])]"
  by (simp add: headers_Sheet clean_headers_def trim_def is_ws_def hist_build_row_def row_at_def)

text \<open>
  C9, amended. The headers that \<open>readFileContent\<close> returns for a structured file are never
  empty and never consist of white space only. (Equal header names are kept.)
\<close>

theorem C9_headers_not_blank:
  "\<forall>h \<in> set (headers (readFileContent (Sheet rawData))). h \<noteq> [] \<and> (\<exists>c \<in> set h. \<not> is_ws c)"
proof
  fix h assume "h \<in> set (headers (readFileContent (Sheet rawData)))"
  then obtain c where "h = header_text c" "h \<noteq> []"
    by (auto simp: headers_Sheet clean_headers_def split: if_splits)
  then show "h \<noteq> [] \<and> (\<exists>c \<in> set h. \<not> is_ws c)"
    using header_text_not_blank [of c] by simp
qed

text \<open>
  A header row with padded, blank, missing and \<open>null\<close> cells.
\<close>

theorem C9_headers_not_blank_witness:
  "headers (readFileContent (Sheet [[Val (SStr '' id ''), Val (SStr ''  ''), Hole, Val SNull,
       Val (SStr ''name'')]])) = [''id'', ''name'']
   \<and> ''id'' \<noteq> [] \<and> (\<exists>c. c \<in> set ''id'' \<and> \<not> is_ws c)
   \<and> ''name'' \<noteq> [] \<and> (\<exists>c. c \<in> set ''name'' \<and> \<not> is_ws c)"
proof -
  let ?raw = "[[Val (SStr '' id ''), Val (SStr ''  ''), Hole, Val SNull, Val (SStr ''name'')]]"
  have h: "headers (readFileContent (Sheet ?raw)) = [''id'', ''name'']"
    by (simp add: headers_Sheet clean_headers_def trim_def is_ws_def)
  show ?thesis
    using C9_headers_not_blank [of ?raw] unfolding h by (simp add: h Bex_def)
qed




end
